theory Spec2Isabelle
  imports Main
begin

section \<open>JavaScript values as the code uses them\<close>

text \<open>
  The credential store of gscli is a JSON file holding an object whose \<open>accounts\<close> member is
  a plain JavaScript object keyed by email.  The code reads it with \<open>obj[k]\<close>, writes it with
  \<open>obj[k] = v\<close>, removes with \<open>delete obj[k]\<close> and iterates with \<open>Object.keys(obj)\<close>.
  An object is modelled by the list of its own enumerable properties in \<open>Object.keys\<close> order:
  array-index keys first, in ascending numeric order, then the other keys in creation order.
\<close>

type_synonym 'a js_object = "(string \<times> 'a) list"

text \<open>
  A JavaScript condition \<open>if (s)\<close>, \<open>!s\<close> or \<open>s || t\<close> on an optional string: \<open>undefined\<close>,
  \<open>null\<close> and \<open>""\<close> are falsy; the result is the string when it is truthy.
\<close>

fun if_truthy :: "string option \<Rightarrow> string option" where
  "if_truthy None = None"
| "if_truthy (Some s) = (if s = [] then None else Some s)"

text \<open>
  The properties every plain object inherits from \<open>Object.prototype\<close>.  Each of them has a
  truthy value (a function, or for \<open>__proto__\<close> the prototype object itself), and none of
  the fields the code reads (\<open>email\<close>, \<open>client_id\<close>, \<open>expiry_date\<close>, ...) is defined on them.
\<close>

definition object_prototype_keys :: "string list" where
  "object_prototype_keys =
     [''constructor'', ''toString'', ''toLocaleString'', ''valueOf'', ''hasOwnProperty'',
      ''isPrototypeOf'', ''propertyIsEnumerable'', ''__defineGetter__'', ''__defineSetter__'',
      ''__lookupGetter__'', ''__lookupSetter__'', ''__proto__'']"

text \<open>The result of \<open>obj[k]\<close>: an own property, an inherited one, or \<open>undefined\<close>.\<close>

datatype 'a js_lookup = Own 'a | Inherited | Undefined

definition obj_get :: "'a js_object \<Rightarrow> string \<Rightarrow> 'a js_lookup" where
  "obj_get obj k =
     (case map_of obj k of
        Some v \<Rightarrow> Own v
      | None \<Rightarrow> if k \<in> set object_prototype_keys then Inherited else Undefined)"

text \<open>A key is an array index when it is the canonical decimal form of a number below \<open>2^32 - 1\<close>.\<close>

definition dec_value :: "string \<Rightarrow> nat" where
  "dec_value s = foldl (\<lambda>n c. 10 * n + (of_char c - 48)) 0 s"

definition is_array_index :: "string \<Rightarrow> bool" where
  "is_array_index s =
     (s \<noteq> [] \<and> list_all (\<lambda>c. c \<in> set ''0123456789'') s \<and>
      (length s = 1 \<or> hd s \<noteq> CHR ''0'') \<and> dec_value s < 4294967295)"

fun obj_insert_index :: "nat \<Rightarrow> string \<Rightarrow> 'a \<Rightarrow> 'a js_object \<Rightarrow> 'a js_object" where
  "obj_insert_index n k v [] = [(k, v)]"
| "obj_insert_index n k v (p # ps) =
     (if is_array_index (fst p) \<and> dec_value (fst p) < n
      then p # obj_insert_index n k v ps
      else (k, v) # p # ps)"

text \<open>
  \<open>obj[k] = v\<close>: an own property is overwritten in place; assigning the absent key
  \<open>__proto__\<close> runs the inherited setter, which replaces the prototype of the in-memory
  object and creates no own property (so nothing of it reaches \<open>JSON.stringify\<close>); any other
  new key becomes an own property at its place in the key order.
\<close>

definition obj_set :: "'a js_object \<Rightarrow> string \<Rightarrow> 'a \<Rightarrow> 'a js_object" where
  "obj_set obj k v =
     (if map_of obj k \<noteq> None then map (\<lambda>p. if fst p = k then (k, v) else p) obj
      else if k = ''__proto__'' then obj
      else if is_array_index k then obj_insert_index (dec_value k) k v obj
      else obj @ [(k, v)])"

definition obj_delete :: "'a js_object \<Rightarrow> string \<Rightarrow> 'a js_object" where
  "obj_delete obj k = filter (\<lambda>p. fst p \<noteq> k) obj"

definition obj_keys :: "'a js_object \<Rightarrow> string list" where
  "obj_keys obj = map fst obj"

section \<open>The credential store (accounts.ts)\<close>

record AccountCredentials =
  email :: string
  client_id :: string
  client_secret :: string
  access_token :: string
  refresh_token :: string
  scope :: string
  token_type :: string
  expiry_date :: int

record AccountsConfig =
  default_account :: "string option"
  accounts :: "AccountCredentials js_object"

text \<open>
  The legacy single-account file \<open>credentials.json\<close> of auth.ts (interface \<open>Credentials\<close>);
  only its two optional client fields are ever read.
\<close>

record Credentials =
  cr_client_id :: "string option"
  cr_client_secret :: "string option"
  cr_access_token :: string
  cr_refresh_token :: string
  cr_scope :: string
  cr_token_type :: string
  cr_expiry_date :: int

text \<open>
  A client registration file as \<open>JSON.parse\<close> returns it: the two fields at top level
  and, optionally, the same two fields one level down under \<open>installed\<close> or \<open>web\<close>.
\<close>

record client_fields =
  cf_client_id :: "string option"
  cf_client_secret :: "string option"

record client_json =
  cj_installed :: "client_fields option"
  cj_web :: "client_fields option"
  cj_flat :: client_fields

text \<open>
  A file on disk, seen through \<open>existsSync\<close>, \<open>readFileSync\<close> and \<open>JSON.parse\<close>:
  it does not exist, or reading or parsing it throws, or it parses to a value of the
  type the code casts it to (\<open>as AccountsConfig\<close>, \<open>as Credentials\<close>).  Contents that
  parse to a value of another shape are outside the model, and so are failures of
  \<open>mkdirSync\<close> and \<open>writeFileSync\<close>: a write succeeds.
\<close>

datatype 'a disk_file = Absent | Unparseable | Parsed 'a

text \<open>
  Everything outside the process that the code reads or writes: the two files under
  \<open>~/.config/gscli\<close>, the other files by path, the environment variable
  \<open>GOOGLE_CLIENT_CREDENTIAL_FILE\<close> and the path \<open>join(process.cwd(), 'client.json')\<close>.
\<close>

record world =
  accounts_file :: "AccountsConfig disk_file"
  credentials_file :: "Credentials disk_file"
  client_files :: "string \<Rightarrow> client_json disk_file"
  env_client_credential_file :: "string option"
  default_client_config_path :: string

datatype error =
    ConfigurationError string
  | InvalidCredentialFormat
  | ClientFileNotFound string
  | ReadOrParseError
  | ClientLoadFailed string error
  | MissingAuthorizationCode
  | InvalidCallbackUrl
  | TokenExchangeFailed string
  | MissingRefreshToken
  | AuthenticationTimeout
  | IdentityLookupError string
  | AccountNotFound string
  | NoAccountsConfigured
  | TokenRefreshFailed string

definition empty_config :: AccountsConfig where
  "empty_config = \<lparr>default_account = None, accounts = []\<rparr>"

definition loadAccountsConfig :: "world \<Rightarrow> AccountsConfig" where
  "loadAccountsConfig w =
     (case accounts_file w of
        Absent \<Rightarrow> empty_config
      | Unparseable \<Rightarrow> empty_config
      | Parsed config \<Rightarrow> config)"

definition saveAccountsConfig :: "world \<Rightarrow> AccountsConfig \<Rightarrow> world" where
  "saveAccountsConfig w config = w\<lparr>accounts_file := Parsed config\<rparr>"

definition saveAccount :: "world \<Rightarrow> AccountCredentials \<Rightarrow> world" where
  "saveAccount w credentials =
     (let config = loadAccountsConfig w;
          config = config\<lparr>accounts := obj_set (accounts config) (email credentials) credentials\<rparr>;
          config = (case if_truthy (default_account config) of
                      None \<Rightarrow> config\<lparr>default_account := Some (email credentials)\<rparr>
                    | Some d \<Rightarrow> config)
      in saveAccountsConfig w config)"

text \<open>\<open>getAccount\<close> returns \<open>AccountCredentials | null\<close>; \<open>Undefined\<close> stands for \<open>null\<close>.\<close>

definition getAccount :: "world \<Rightarrow> string option \<Rightarrow> AccountCredentials js_lookup" where
  "getAccount w sel =
     (let config = loadAccountsConfig w in
      case if_truthy sel of
        Some e \<Rightarrow> obj_get (accounts config) e
      | None \<Rightarrow>
          (case if_truthy (default_account config) of
             Some d \<Rightarrow> obj_get (accounts config) d
           | None \<Rightarrow>
               (case obj_keys (accounts config) of
                  [] \<Rightarrow> Undefined
                | k # ks \<Rightarrow> obj_get (accounts config) k)))"

definition listAccounts :: "world \<Rightarrow> (string \<times> bool) list" where
  "listAccounts w =
     (let config = loadAccountsConfig w in
      map (\<lambda>k. (k, Some k = default_account config)) (obj_keys (accounts config)))"

definition setDefaultAccount :: "world \<Rightarrow> string \<Rightarrow> error + world" where
  "setDefaultAccount w e =
     (let config = loadAccountsConfig w in
      if obj_get (accounts config) e = Undefined then Inl (AccountNotFound e)
      else Inr (saveAccountsConfig w (config\<lparr>default_account := Some e\<rparr>)))"

definition removeAccount :: "world \<Rightarrow> string \<Rightarrow> error + world" where
  "removeAccount w e =
     (let config = loadAccountsConfig w in
      if obj_get (accounts config) e = Undefined then Inl (AccountNotFound e)
      else
        let config = config\<lparr>accounts := obj_delete (accounts config) e\<rparr>;
            config = (if default_account config = Some e
                      then (case obj_keys (accounts config) of
                              [] \<Rightarrow> config\<lparr>default_account := None\<rparr>
                            | k # ks \<Rightarrow> config\<lparr>default_account := Some k\<rparr>)
                      else config)
        in Inr (saveAccountsConfig w config))"

text \<open>
  The store operations as commands, for talking about sequences of them.  An operation
  that throws has written nothing, so the files are as before.
\<close>

datatype store_op = Save AccountCredentials | SetDefault string | Remove string

fun apply_op :: "world \<Rightarrow> store_op \<Rightarrow> world" where
  "apply_op w (Save a) = saveAccount w a"
| "apply_op w (SetDefault e) = (case setDefaultAccount w e of Inl err \<Rightarrow> w | Inr w' \<Rightarrow> w')"
| "apply_op w (Remove e) = (case removeAccount w e of Inl err \<Rightarrow> w | Inr w' \<Rightarrow> w')"

definition run_ops :: "world \<Rightarrow> store_op list \<Rightarrow> world" where
  "run_ops w ops = foldl apply_op w ops"

fun op_key :: "store_op \<Rightarrow> string" where
  "op_key (Save a) = email a"
| "op_key (SetDefault e) = e"
| "op_key (Remove e) = e"

text \<open>The invariant of the data model: a default that is set names an own key.\<close>

definition default_account_valid :: "AccountsConfig \<Rightarrow> bool" where
  "default_account_valid config =
     (case default_account config of
        None \<Rightarrow> True
      | Some d \<Rightarrow> d \<in> set (obj_keys (accounts config)))"

text \<open>A first run: no file exists and the environment variable is not set.\<close>

definition fresh_world :: world where
  "fresh_world =
     \<lparr>accounts_file = Absent, credentials_file = Absent, client_files = (\<lambda>p. Absent),
      env_client_credential_file = None, default_client_config_path = ''./client.json''\<rparr>"

section \<open>The session provider (getAuthenticatedClient in auth.ts)\<close>

text \<open>
  What \<open>refreshAccessToken\<close> and \<open>getToken\<close> answer.  The code reads every field but
  \<open>refresh_token\<close> with a non-null assertion, so only that one is optional here.
\<close>

record token_response =
  tr_access_token :: string
  tr_refresh_token :: "string option"
  tr_scope :: string
  tr_token_type :: string
  tr_expiry_date :: int

record client_credentials =
  cc_access_token :: "string option"
  cc_refresh_token :: "string option"
  cc_scope :: "string option"
  cc_token_type :: "string option"
  cc_expiry_date :: "int option"

record OAuth2Client =
  oc_client_id :: "string option"
  oc_client_secret :: "string option"
  oc_redirect_uri :: string
  oc_credentials :: client_credentials

text \<open>Reading a field of what \<open>getAccount\<close> returned; an inherited value has none of them.\<close>

fun field :: "('a \<Rightarrow> 'b) \<Rightarrow> 'a js_lookup \<Rightarrow> 'b option" where
  "field f (Own a) = Some (f a)"
| "field f Inherited = None"
| "field f Undefined = None"

definition client_for :: "AccountCredentials js_lookup \<Rightarrow> OAuth2Client" where
  "client_for account =
     \<lparr>oc_client_id = field client_id account,
      oc_client_secret = field client_secret account,
      oc_redirect_uri = ''http://127.0.0.1:8080'',
      oc_credentials =
        \<lparr>cc_access_token = field access_token account,
         cc_refresh_token = field refresh_token account,
         cc_scope = field scope account,
         cc_token_type = field token_type account,
         cc_expiry_date = field expiry_date account\<rparr>\<rparr>"

definition setCredentials :: "OAuth2Client \<Rightarrow> token_response \<Rightarrow> OAuth2Client" where
  "setCredentials c t =
     c\<lparr>oc_credentials :=
         \<lparr>cc_access_token = Some (tr_access_token t),
          cc_refresh_token = tr_refresh_token t,
          cc_scope = Some (tr_scope t),
          cc_token_type = Some (tr_token_type t),
          cc_expiry_date = Some (tr_expiry_date t)\<rparr>\<rparr>"

text \<open>
  The result of one call, with what it did on the way: the files afterwards, the number
  of refresh requests made and the number of writes of the accounts file.
\<close>

record session_result =
  outcome :: "error + OAuth2Client"
  world_after :: world
  refresh_calls :: nat
  store_writes :: nat

definition updatedAccount :: "AccountCredentials \<Rightarrow> token_response \<Rightarrow> AccountCredentials" where
  "updatedAccount account t =
     account\<lparr>access_token := tr_access_token t,
             refresh_token := (case if_truthy (tr_refresh_token t) of
                                 Some r \<Rightarrow> r
                               | None \<Rightarrow> refresh_token account),
             scope := tr_scope t,
             token_type := tr_token_type t,
             expiry_date := tr_expiry_date t\<rparr>"

text \<open>
  \<open>now\<close> is \<open>Date.now()\<close>; \<open>refreshAccessToken\<close> is the network call of the client
  library, which throws (\<open>Inl\<close>, with the message) or answers with new tokens.
\<close>

definition getAuthenticatedClient ::
  "world \<Rightarrow> int \<Rightarrow> (OAuth2Client \<Rightarrow> string + token_response) \<Rightarrow> string option \<Rightarrow> session_result" where
  "getAuthenticatedClient w now refreshAccessToken accountEmail =
     (case getAccount w accountEmail of
        Undefined \<Rightarrow>
          (case if_truthy accountEmail of
             Some e \<Rightarrow>
               \<lparr>outcome = Inl (AccountNotFound e), world_after = w,
                refresh_calls = 0, store_writes = 0\<rparr>
           | None \<Rightarrow>
               \<lparr>outcome = Inl NoAccountsConfigured, world_after = w,
                refresh_calls = 0, store_writes = 0\<rparr>)
      | Inherited \<Rightarrow>
          \<lparr>outcome = Inr (client_for Inherited), world_after = w,
           refresh_calls = 0, store_writes = 0\<rparr>
      | Own account \<Rightarrow>
          (let oauth2Client = client_for (Own account) in
           if expiry_date account \<noteq> 0 \<and> expiry_date account < now then
             (case refreshAccessToken oauth2Client of
                Inr credentials \<Rightarrow>
                  \<lparr>outcome = Inr (setCredentials oauth2Client credentials),
                   world_after = saveAccount w (updatedAccount account credentials),
                   refresh_calls = 1, store_writes = 1\<rparr>
              | Inl message \<Rightarrow>
                  \<lparr>outcome = Inl (TokenRefreshFailed (email account)), world_after = w,
                   refresh_calls = 1, store_writes = 0\<rparr>)
           else
             \<lparr>outcome = Inr oauth2Client, world_after = w,
              refresh_calls = 0, store_writes = 0\<rparr>))"

section \<open>The client credential resolver (loadClientCredentials in auth.ts)\<close>

record app_credential =
  ac_client_id :: string
  ac_client_secret :: string

definition loadStoredCredentials :: "world \<Rightarrow> Credentials option" where
  "loadStoredCredentials w =
     (case credentials_file w of
        Absent \<Rightarrow> None
      | Unparseable \<Rightarrow> None
      | Parsed c \<Rightarrow> Some c)"

text \<open>\<open>credentials.installed || credentials.web || credentials\<close>, then the two-field check.\<close>

definition unwrap :: "client_json \<Rightarrow> client_fields" where
  "unwrap credentials =
     (case cj_installed credentials of
        Some creds \<Rightarrow> creds
      | None \<Rightarrow> (case cj_web credentials of
                   Some creds \<Rightarrow> creds
                 | None \<Rightarrow> cj_flat credentials))"

definition two_fields :: "string option \<Rightarrow> string option \<Rightarrow> app_credential option" where
  "two_fields i s =
     (case if_truthy i of
        None \<Rightarrow> None
      | Some ci \<Rightarrow> (case if_truthy s of
                     None \<Rightarrow> None
                   | Some cs \<Rightarrow> Some \<lparr>ac_client_id = ci, ac_client_secret = cs\<rparr>))"

definition parse_client :: "client_json \<Rightarrow> error + app_credential" where
  "parse_client credentials =
     (let creds = unwrap credentials in
      case two_fields (cf_client_id creds) (cf_client_secret creds) of
        None \<Rightarrow> Inl InvalidCredentialFormat
      | Some c \<Rightarrow> Inr c)"

text \<open>
  Step 1 of the resolver reads the legacy file \<open>credentials.json\<close>, not the accounts file.
  The paths handed to the resolver are taken to be other files than the two store files.
  With an explicit path every failure is rethrown wrapped (\<open>Failed to load client
  credentials from ...\<close>); on the other branch only the format error gets out of the
  \<open>catch\<close>, and everything else ends in the long "not found" message, which names the one
  path that was tried.
\<close>

definition stored_client_credential :: "world \<Rightarrow> app_credential option" where
  "stored_client_credential w =
     (case loadStoredCredentials w of
        None \<Rightarrow> None
      | Some storedCredentials \<Rightarrow>
          two_fields (cr_client_id storedCredentials) (cr_client_secret storedCredentials))"

definition loadClientCredentials :: "world \<Rightarrow> string option \<Rightarrow> error + app_credential" where
  "loadClientCredentials w clientPath =
     (case stored_client_credential w of
        Some c \<Rightarrow> Inr c
      | None \<Rightarrow>
          (case if_truthy clientPath of
             Some p \<Rightarrow>
               (case client_files w p of
                  Absent \<Rightarrow> Inl (ClientLoadFailed p (ClientFileNotFound p))
                | Unparseable \<Rightarrow> Inl (ClientLoadFailed p ReadOrParseError)
                | Parsed credentials \<Rightarrow>
                    (case parse_client credentials of
                       Inl e \<Rightarrow> Inl (ClientLoadFailed p e)
                     | Inr c \<Rightarrow> Inr c))
           | None \<Rightarrow>
               (let credentialPath =
                      (case if_truthy (env_client_credential_file w) of
                         Some envPath \<Rightarrow> envPath
                       | None \<Rightarrow> default_client_config_path w)
                in case client_files w credentialPath of
                     Absent \<Rightarrow> Inl (ConfigurationError credentialPath)
                   | Unparseable \<Rightarrow> Inl (ConfigurationError credentialPath)
                   | Parsed credentials \<Rightarrow> parse_client credentials)))"

definition isAuthenticated :: "world \<Rightarrow> bool" where
  "isAuthenticated w = (loadStoredCredentials w \<noteq> None)"

subsection \<open>The resolution order in the words of the specification\<close>

text \<open>
  The specification lists four candidates, the first that yields a client id and a client
  secret winning: a credential embedded in an account of the multi-account store, the
  explicit path, the path in the environment variable, the default path.
\<close>

definition file_credential :: "world \<Rightarrow> string \<Rightarrow> app_credential option" where
  "file_credential w p =
     (case client_files w p of
        Absent \<Rightarrow> None
      | Unparseable \<Rightarrow> None
      | Parsed credentials \<Rightarrow>
          (case parse_client credentials of Inl e \<Rightarrow> None | Inr c \<Rightarrow> Some c))"

definition embedded_credential :: "AccountCredentials \<Rightarrow> app_credential option" where
  "embedded_credential a = two_fields (Some (client_id a)) (Some (client_secret a))"

fun first_some :: "'a option list \<Rightarrow> 'a option" where
  "first_some [] = None"
| "first_some (None # cs) = first_some cs"
| "first_some (Some c # cs) = Some c"

definition spec_resolution_order :: "world \<Rightarrow> string option \<Rightarrow> app_credential option" where
  "spec_resolution_order w clientPath =
     first_some
       (map (\<lambda>p. embedded_credential (snd p)) (accounts (loadAccountsConfig w)) @
        [case clientPath of None \<Rightarrow> None | Some p \<Rightarrow> file_credential w p,
         case env_client_credential_file w of None \<Rightarrow> None | Some p \<Rightarrow> file_credential w p,
         file_credential w (default_client_config_path w)])"

section \<open>The authorization flow (authenticate in auth.ts, getUserEmail in accounts.ts)\<close>

text \<open>
  What the identity endpoint did: \<open>fetch\<close> or \<open>response.json()\<close> threw, or the status
  was not ok, or a body arrived with or without an email.
\<close>

datatype userinfo_response = FetchFailed string | HttpError string string | UserInfo "string option"

definition getUserEmail :: "userinfo_response \<Rightarrow> error + string" where
  "getUserEmail r =
     (case r of
        FetchFailed message \<Rightarrow> Inl (IdentityLookupError message)
      | HttpError status errorText \<Rightarrow>
          Inl (IdentityLookupError (''API responded with '' @ status @ '': '' @ errorText))
      | UserInfo e \<Rightarrow>
          (case if_truthy e of
             None \<Rightarrow> Inl (IdentityLookupError ''Email not found in user info response'')
           | Some userEmail \<Rightarrow> Inr userEmail))"

text \<open>
  A request as the handler sees it: it is skipped (\<open>req.url\<close> missing or
  \<open>/favicon.ico\<close>), or \<open>new URL\<close> throws on it, or it has a \<open>code\<close> parameter or none.
\<close>

datatype request = NoUrlOrFavicon | BadUrl | Callback "string option"

text \<open>
  The flow runs on the event loop.  The handler is an async function with two
  \<open>await\<close>s, so it runs in up to three pieces, and between them other callbacks may run:
  the handler of another request, the timer, or the \<open>close\<close> event of the server, which
  runs the callback given to \<open>server.close\<close>.  An event is one callback run to its next
  suspension.
\<close>

datatype event =
    Request request
  | TokenDone nat "string + token_response"
  | EmailDone nat userinfo_response
  | TimerFires
  | ServerClosed

datatype handler = AwaitingToken | AwaitingEmail token_response string | Finished

datatype flow_outcome = Resolved | Rejected error

record http_response =
  hr_status :: nat
  hr_body :: string

record flow =
  fl_world :: world
  listening :: bool
  close_calls :: nat
  timer_armed :: bool
  settled :: "flow_outcome option"
  resolve_on_close :: bool
  handlers :: "handler list"
  responses :: "(nat \<times> http_response) list"

definition page_no_code :: http_response where
  "page_no_code =
     \<lparr>hr_status = 400, hr_body = ''<h1>Error: No authorization code received</h1>''\<rparr>"

definition page_no_refresh_token :: http_response where
  "page_no_refresh_token =
     \<lparr>hr_status = 400, hr_body = ''<h1>Error: No refresh token received</h1>''\<rparr>"

definition page_error :: http_response where
  "page_error = \<lparr>hr_status = 500, hr_body = ''<h1>Error during authentication</h1>''\<rparr>"

text \<open>The success page, without its layout and its check mark.\<close>

definition page_success :: http_response where
  "page_success =
     \<lparr>hr_status = 200,
      hr_body = ''<html><head><title>Authentication Successful</title></head>'' @
                ''<body><h1>Authentication Successful!</h1>'' @
                ''<p>You can now close this window and return to your terminal.</p>'' @
                ''</body></html>''\<rparr>"

definition respond :: "nat \<Rightarrow> http_response \<Rightarrow> flow \<Rightarrow> flow" where
  "respond i r s = s\<lparr>responses := responses s @ [(i, r)]\<rparr>"

definition clearTimeout :: "flow \<Rightarrow> flow" where
  "clearTimeout s = s\<lparr>timer_armed := False\<rparr>"

definition server_close :: "flow \<Rightarrow> flow" where
  "server_close s = s\<lparr>listening := False, close_calls := Suc (close_calls s)\<rparr>"

text \<open>\<open>resolve\<close> and \<open>reject\<close> of the promise: the first call settles it, later calls do nothing.\<close>

definition settle :: "flow_outcome \<Rightarrow> flow \<Rightarrow> flow" where
  "settle x s = (case settled s of None \<Rightarrow> s\<lparr>settled := Some x\<rparr> | Some y \<Rightarrow> s)"

definition set_handler :: "nat \<Rightarrow> handler \<Rightarrow> flow \<Rightarrow> flow" where
  "set_handler i h s = s\<lparr>handlers := (handlers s)[i := h]\<rparr>"

definition handler_at :: "flow \<Rightarrow> nat \<Rightarrow> handler" where
  "handler_at s i = (if i < length (handlers s) then handlers s ! i else Finished)"

text \<open>
  Every failing branch of the handler: write the page, clear the timer, close the
  server, reject.
\<close>

definition fail_with :: "nat \<Rightarrow> http_response \<Rightarrow> error \<Rightarrow> flow \<Rightarrow> flow" where
  "fail_with i page e s =
     settle (Rejected e) (server_close (clearTimeout (respond i page (set_handler i Finished s))))"

definition accountCredentials ::
  "app_credential \<Rightarrow> string \<Rightarrow> token_response \<Rightarrow> string \<Rightarrow> AccountCredentials" where
  "accountCredentials clientConfig userEmail tokens rt =
     \<lparr>email = userEmail,
      client_id = ac_client_id clientConfig,
      client_secret = ac_client_secret clientConfig,
      access_token = tr_access_token tokens,
      refresh_token = rt,
      scope = tr_scope tokens,
      token_type = tr_token_type tokens,
      expiry_date = tr_expiry_date tokens\<rparr>"

text \<open>
  One callback.  A request is delivered only while the server listens; a completion is
  delivered to the handler that awaits it; the timer fires once, unless cleared.  On
  success the handler passes \<open>() => resolve()\<close> to \<open>server.close\<close>, and the promise is
  resolved only when the server emits \<open>close\<close>, which it does at some time after it has
  stopped listening.
\<close>

definition step :: "app_credential \<Rightarrow> flow \<Rightarrow> event \<Rightarrow> flow" where
  "step clientConfig s ev =
     (case ev of
        Request r \<Rightarrow>
          if \<not> listening s then s
          else
            (let i = length (handlers s);
                 s = s\<lparr>handlers := handlers s @ [Finished]\<rparr>
             in case r of
                  NoUrlOrFavicon \<Rightarrow> s
                | BadUrl \<Rightarrow> fail_with i page_error InvalidCallbackUrl s
                | Callback code \<Rightarrow>
                    (case if_truthy code of
                       None \<Rightarrow> fail_with i page_no_code MissingAuthorizationCode s
                     | Some c \<Rightarrow> set_handler i AwaitingToken s))
      | TokenDone i r \<Rightarrow>
          (case handler_at s i of
             AwaitingToken \<Rightarrow>
               (case r of
                  Inl message \<Rightarrow> fail_with i page_error (TokenExchangeFailed message) s
                | Inr tokens \<Rightarrow>
                    (case if_truthy (tr_refresh_token tokens) of
                       None \<Rightarrow> fail_with i page_no_refresh_token MissingRefreshToken s
                     | Some rt \<Rightarrow> set_handler i (AwaitingEmail tokens rt) s))
           | AwaitingEmail tokens rt \<Rightarrow> s
           | Finished \<Rightarrow> s)
      | EmailDone i r \<Rightarrow>
          (case handler_at s i of
             AwaitingToken \<Rightarrow> s
           | AwaitingEmail tokens rt \<Rightarrow>
               (case getUserEmail r of
                  Inl e \<Rightarrow> fail_with i page_error e s
                | Inr userEmail \<Rightarrow>
                    (server_close
                      (clearTimeout
                        (respond i page_success
                          (set_handler i Finished
                            (s\<lparr>fl_world :=
                                 saveAccount (fl_world s)
                                   (accountCredentials clientConfig userEmail tokens rt)\<rparr>)))))
                    \<lparr>resolve_on_close := True\<rparr>)
           | Finished \<Rightarrow> s)
      | TimerFires \<Rightarrow>
          if timer_armed s
          then settle (Rejected AuthenticationTimeout) (server_close (s\<lparr>timer_armed := False\<rparr>))
          else s
      | ServerClosed \<Rightarrow>
          if \<not> listening s \<and> resolve_on_close s
          then settle Resolved (s\<lparr>resolve_on_close := False\<rparr>)
          else s)"

definition start :: "world \<Rightarrow> flow" where
  "start w =
     \<lparr>fl_world = w, listening = True, close_calls = 0, timer_armed = True, settled = None,
      resolve_on_close = False, handlers = [], responses = []\<rparr>"

definition run_flow :: "app_credential \<Rightarrow> flow \<Rightarrow> event list \<Rightarrow> flow" where
  "run_flow clientConfig s evs = foldl (step clientConfig) s evs"

text \<open>
  \<open>authenticate\<close>: when the resolver throws, the promise is rejected before any server
  exists; otherwise the server and the timer are started and the events take their course.
\<close>

definition authenticate :: "world \<Rightarrow> string option \<Rightarrow> event list \<Rightarrow> flow" where
  "authenticate w clientPath evs =
     (case loadClientCredentials w clientPath of
        Inl e \<Rightarrow>
          \<lparr>fl_world = w, listening = False, close_calls = 0, timer_armed = False,
           settled = Some (Rejected e), resolve_on_close = False, handlers = [],
           responses = []\<rparr>
      | Inr clientConfig \<Rightarrow> run_flow clientConfig (start w) evs)"

subsection \<open>Predicates on flow states\<close>


text \<open>Every response written so far is one of the four pages of the source.\<close>

definition fixed_pages :: "flow \<Rightarrow> bool" where
  "fixed_pages s =
     list_all (\<lambda>r. snd r \<in> set [page_success, page_no_code, page_no_refresh_token, page_error])
       (responses s)"

section \<open>Example data\<close>

definition alice :: AccountCredentials where
  "alice = \<lparr>email = ''a@x.com'', client_id = ''app-id'', client_secret = ''app-secret'',
            access_token = ''at-a'', refresh_token = ''rt-a'', scope = ''mail'',
            token_type = ''Bearer'', expiry_date = 1000\<rparr>"

definition bob :: AccountCredentials where
  "bob = \<lparr>email = ''b@x.com'', client_id = ''app-id'', client_secret = ''app-secret'',
          access_token = ''at-b'', refresh_token = ''rt-b'', scope = ''mail'',
          token_type = ''Bearer'', expiry_date = 5000\<rparr>"


definition store_world :: "AccountsConfig \<Rightarrow> world" where
  "store_world config = fresh_world\<lparr>accounts_file := Parsed config\<rparr>"

definition new_tokens :: token_response where
  "new_tokens = \<lparr>tr_access_token = ''at-new'', tr_refresh_token = None, tr_scope = ''mail'',
                 tr_token_type = ''Bearer'', tr_expiry_date = 9000\<rparr>"

definition refresh_fails :: "OAuth2Client \<Rightarrow> string + token_response" where
  "refresh_fails c = Inl ''invalid_grant''"

definition refresh_succeeds :: "OAuth2Client \<Rightarrow> string + token_response" where
  "refresh_succeeds c = Inr new_tokens"

definition app :: app_credential where
  "app = \<lparr>ac_client_id = ''app-id'', ac_client_secret = ''app-secret''\<rparr>"

definition client_file :: client_json where
  "client_file =
     \<lparr>cj_installed = Some \<lparr>cf_client_id = Some ''app-id'', cf_client_secret = Some ''app-secret''\<rparr>,
      cj_web = None,
      cj_flat = \<lparr>cf_client_id = None, cf_client_secret = None\<rparr>\<rparr>"

definition only_file :: "string \<Rightarrow> client_json \<Rightarrow> string \<Rightarrow> client_json disk_file" where
  "only_file path content p = (if p = path then Parsed content else Absent)"

definition env_points_nowhere :: world where
  "env_points_nowhere =
     fresh_world\<lparr>client_files := only_file ''./client.json'' client_file,
                 env_client_credential_file := Some ''/missing.json''\<rparr>"

definition default_file_world :: world where
  "default_file_world = fresh_world\<lparr>client_files := only_file ''./client.json'' client_file\<rparr>"

definition explicit_world :: world where
  "explicit_world = fresh_world\<lparr>client_files := only_file ''/home/u/client.json'' client_file\<rparr>"

definition tokens_with_refresh :: token_response where
  "tokens_with_refresh =
     \<lparr>tr_access_token = ''at-1'', tr_refresh_token = Some ''rt-1'', tr_scope = ''mail'',
      tr_token_type = ''Bearer'', tr_expiry_date = 9000\<rparr>"

definition two_accounts :: world where
  "two_accounts =
     store_world \<lparr>default_account = Some ''b@x.com'',
                  accounts = [(''a@x.com'', alice), (''b@x.com'', bob)]\<rparr>"


definition login_events :: "event list" where
  "login_events =
     [Request (Callback (Some ''4/code'')), TokenDone 0 (Inr tokens_with_refresh),
      EmailDone 0 (UserInfo (Some ''a@x.com'')), ServerClosed]"


definition no_code_events :: "event list" where
  "no_code_events = [Request (Callback None)]"

definition no_refresh_token_events :: "event list" where
  "no_refresh_token_events = [Request (Callback (Some ''4/code'')), TokenDone 0 (Inr new_tokens)]"


definition legacy_unparseable :: world where
  "legacy_unparseable =
     fresh_world\<lparr>credentials_file := Unparseable,
                 client_files := only_file ''./client.json'' client_file\<rparr>"

definition unparseable_file :: "string \<Rightarrow> string \<Rightarrow> client_json disk_file" where
  "unparseable_file path p = (if p = path then Unparseable else Absent)"

definition default_file_corrupt :: world where
  "default_file_corrupt = fresh_world\<lparr>client_files := unparseable_file ''./client.json''\<rparr>"

definition env_file_corrupt :: world where
  "env_file_corrupt =
     fresh_world\<lparr>client_files := unparseable_file ''/etc/client.json'',
                 env_client_credential_file := Some ''/etc/client.json''\<rparr>"

definition legacy_only :: world where
  "legacy_only =
     fresh_world\<lparr>credentials_file :=
       Parsed \<lparr>cr_client_id = None, cr_client_secret = None, cr_access_token = ''at-old'',
               cr_refresh_token = ''rt-old'', cr_scope = ''mail'', cr_token_type = ''Bearer'',
               cr_expiry_date = 1000\<rparr>\<rparr>"

section \<open>Properties of the object model\<close>

lemmas example_defs = alice_def bob_def store_world_def fresh_world_def new_tokens_def
  refresh_fails_def refresh_succeeds_def app_def tokens_with_refresh_def two_accounts_def

lemmas store_defs = loadAccountsConfig_def saveAccountsConfig_def saveAccount_def getAccount_def
  setDefaultAccount_def removeAccount_def empty_config_def obj_get_def obj_set_def obj_delete_def
  obj_keys_def object_prototype_keys_def is_array_index_def dec_value_def

lemma keys_obj_insert_index:
  "set (obj_keys (obj_insert_index n k v obj)) = insert k (set (obj_keys obj))"
  by (induction obj) (auto simp: obj_keys_def)

lemma keys_obj_overwrite:
  "obj_keys (map (\<lambda>p. if fst p = k then (k, v) else p) obj) = obj_keys obj"
  by (induction obj) (auto simp: obj_keys_def)

lemma keys_obj_set:
  "set (obj_keys (obj_set obj k v)) =
     (if map_of obj k = None \<and> k = ''__proto__'' then set (obj_keys obj)
      else insert k (set (obj_keys obj)))"
proof (cases "map_of obj k")
  case None
  then show ?thesis
    by (auto simp: obj_set_def keys_obj_insert_index) (auto simp: obj_keys_def)
next
  case (Some a)
  then have "k \<in> set (obj_keys obj)"
    unfolding obj_keys_def by (metis map_of_eq_None_iff option.distinct(1) set_map)
  then show ?thesis using Some
    by (auto simp: obj_set_def keys_obj_overwrite)
qed



section \<open>The credential store\<close>

lemma accounts_saveAccount:
  "accounts (loadAccountsConfig (saveAccount w a)) =
     obj_set (accounts (loadAccountsConfig w)) (email a) a"
  by (simp add: saveAccount_def saveAccountsConfig_def loadAccountsConfig_def Let_def
      split: option.splits)

lemma default_saveAccount:
  "default_account (loadAccountsConfig (saveAccount w a)) =
     (case if_truthy (default_account (loadAccountsConfig w)) of
        None \<Rightarrow> Some (email a)
      | Some d \<Rightarrow> default_account (loadAccountsConfig w))"
  by (simp add: saveAccount_def saveAccountsConfig_def loadAccountsConfig_def Let_def
      split: option.splits)

text \<open>
  C4.  The invariant says that a default that is set names a key of the accounts mapping.
  \<open>setDefaultAccount\<close> tests \<open>!config.accounts[email]\<close>, and a property inherited from
  \<open>Object.prototype\<close> passes that test: on a first run, with no account stored,
  \<open>setDefaultAccount("toString")\<close> does not throw and writes a store whose default is
  \<open>toString\<close> and whose accounts mapping is empty.
\<close>

theorem setDefaultAccount_inherited_key:
  "setDefaultAccount fresh_world ''toString'' =
     Inr (fresh_world\<lparr>accounts_file :=
            Parsed \<lparr>default_account = Some ''toString'', accounts = []\<rparr>\<rparr>) \<and>
   \<not> default_account_valid (loadAccountsConfig (run_ops fresh_world [SetDefault ''toString'']))"
  by (simp add: run_ops_def default_account_valid_def store_defs fresh_world_def)

text \<open>
  The guard misses nothing else: as long as no operation names a property of
  \<open>Object.prototype\<close>, every operation keeps the invariant, and removing the default when
  no other key remains clears it.
\<close>

lemma in_keys: "map_of obj k \<noteq> None \<longleftrightarrow> k \<in> set (obj_keys obj)"
  unfolding obj_keys_def by (metis map_of_eq_None_iff set_map)

lemma keys_obj_delete: "set (obj_keys (obj_delete obj e)) = set (obj_keys obj) - {e}"
  by (auto simp: obj_keys_def obj_delete_def)

lemma valid_saveAccount:
  assumes "default_account_valid (loadAccountsConfig w)" "email a \<noteq> ''__proto__''"
  shows "default_account_valid (loadAccountsConfig (saveAccount w a))"
  using assms
  by (auto simp: default_account_valid_def accounts_saveAccount default_saveAccount keys_obj_set
      split: option.splits if_splits)

lemma valid_setDefaultAccount:
  assumes "default_account_valid (loadAccountsConfig w)" "e \<notin> set object_prototype_keys"
    "setDefaultAccount w e = Inr w'"
  shows "default_account_valid (loadAccountsConfig w')"
proof -
  from assms(2,3) have "map_of (accounts (loadAccountsConfig w)) e \<noteq> None"
    by (auto simp: setDefaultAccount_def obj_get_def Let_def split: option.splits if_splits)
  then have "e \<in> set (obj_keys (accounts (loadAccountsConfig w)))"
    by (simp only: in_keys)
  with assms(3) show ?thesis
    by (auto simp: setDefaultAccount_def default_account_valid_def Let_def saveAccountsConfig_def
        loadAccountsConfig_def split: if_splits)
qed

lemma loadAccountsConfig_removeAccount:
  assumes "removeAccount w e = Inr w'"
  shows "loadAccountsConfig w' =
      (if default_account (loadAccountsConfig w) = Some e
       then (case obj_keys (obj_delete (accounts (loadAccountsConfig w)) e) of
               [] \<Rightarrow> (loadAccountsConfig w)
                       \<lparr>accounts := obj_delete (accounts (loadAccountsConfig w)) e,
                        default_account := None\<rparr>
             | k # ks \<Rightarrow> (loadAccountsConfig w)
                       \<lparr>accounts := obj_delete (accounts (loadAccountsConfig w)) e,
                        default_account := Some k\<rparr>)
       else (loadAccountsConfig w)\<lparr>accounts := obj_delete (accounts (loadAccountsConfig w)) e\<rparr>)"
  using assms
  by (auto simp: removeAccount_def Let_def saveAccountsConfig_def loadAccountsConfig_def
      split: if_splits list.splits)

lemma valid_removeAccount:
  assumes "default_account_valid (loadAccountsConfig w)" "removeAccount w e = Inr w'"
  shows "default_account_valid (loadAccountsConfig w')"
proof (cases "default_account (loadAccountsConfig w) = Some e")
  case True
  then show ?thesis
    by (cases "obj_keys (obj_delete (accounts (loadAccountsConfig w)) e)")
      (simp_all add: loadAccountsConfig_removeAccount [OF assms(2)] default_account_valid_def)
next
  case False
  with assms(1) show ?thesis
    by (auto simp: loadAccountsConfig_removeAccount [OF assms(2)] default_account_valid_def
        keys_obj_delete split: option.splits)
qed

lemma removeAccount_last_key_clears_default:
  assumes "removeAccount w e = Inr w'" "default_account (loadAccountsConfig w) = Some e"
    "set (obj_keys (accounts (loadAccountsConfig w))) \<subseteq> {e}"
  shows "loadAccountsConfig w' = \<lparr>default_account = None, accounts = []\<rparr>"
proof -
  have "obj_delete (accounts (loadAccountsConfig w)) e = []"
    using assms(3) by (auto simp: obj_delete_def obj_keys_def filter_empty_conv)
  then show ?thesis
    by (simp add: loadAccountsConfig_removeAccount [OF assms(1)] assms(2) obj_keys_def)
qed

lemma valid_apply_op:
  assumes "default_account_valid (loadAccountsConfig w)" "op_key x \<notin> set object_prototype_keys"
  shows "default_account_valid (loadAccountsConfig (apply_op w x))"
proof (cases x)
  case (Save a)
  with assms show ?thesis
    by (auto simp: object_prototype_keys_def intro!: valid_saveAccount)
next
  case (SetDefault e)
  with assms show ?thesis
    by (auto split: sum.splits intro: valid_setDefaultAccount)
next
  case (Remove e)
  with assms show ?thesis
    by (auto split: sum.splits intro: valid_removeAccount)
qed

lemma valid_run_ops:
  assumes "default_account_valid (loadAccountsConfig w)"
    "\<forall>x\<in>set ops. op_key x \<notin> set object_prototype_keys"
  shows "default_account_valid (loadAccountsConfig (run_ops w ops))"
  using assms unfolding run_ops_def
  by (induction ops arbitrary: w) (auto simp: valid_apply_op)

lemma remove_default_of_two:
  "loadAccountsConfig (run_ops two_accounts [SetDefault ''a@x.com'', Remove ''a@x.com'']) =
     \<lparr>default_account = Some ''b@x.com'', accounts = [(''b@x.com'', bob)]\<rparr> \<and>
   listAccounts (run_ops two_accounts [SetDefault ''a@x.com'', Remove ''a@x.com'']) =
     [(''b@x.com'', True)]"
  by (simp add: run_ops_def listAccounts_def store_defs example_defs)

section \<open>Account selection\<close>

text \<open>
  C1, as the code has it.  With a non-empty email, \<open>getAccount\<close> returns the account stored
  under that key, and the session provider fails with \<open>AccountNotFound\<close> when the key is
  neither stored nor a property name of \<open>Object.prototype\<close>.  With no email, or the empty
  string, a non-empty default decides alone: the account stored under it, or
  \<open>NoAccountsConfigured\<close> when it names neither a stored account nor a property of
  \<open>Object.prototype\<close> (however many accounts there are).  Only when the default is unset or empty is the first account in key order
  returned, or \<open>NoAccountsConfigured\<close> when there is none.
\<close>

theorem getAccount_selection:
  "(\<forall>e a. e \<noteq> [] \<longrightarrow> map_of (accounts (loadAccountsConfig w)) e = Some a \<longrightarrow>
        getAccount w (Some e) = Own a) \<and>
   (\<forall>e. e \<noteq> [] \<longrightarrow> e \<notin> set object_prototype_keys \<longrightarrow>
        map_of (accounts (loadAccountsConfig w)) e = None \<longrightarrow>
        outcome (getAuthenticatedClient w now rf (Some e)) = Inl (AccountNotFound e)) \<and>
   (\<forall>sel d a. if_truthy sel = None \<longrightarrow>
        default_account (loadAccountsConfig w) = Some d \<longrightarrow> d \<noteq> [] \<longrightarrow>
        map_of (accounts (loadAccountsConfig w)) d = Some a \<longrightarrow>
        getAccount w sel = Own a) \<and>
   (\<forall>sel d. if_truthy sel = None \<longrightarrow>
        default_account (loadAccountsConfig w) = Some d \<longrightarrow> d \<noteq> [] \<longrightarrow>
        d \<notin> set object_prototype_keys \<longrightarrow>
        map_of (accounts (loadAccountsConfig w)) d = None \<longrightarrow>
        outcome (getAuthenticatedClient w now rf sel) = Inl NoAccountsConfigured) \<and>
   (\<forall>sel k a rest. if_truthy sel = None \<longrightarrow>
        if_truthy (default_account (loadAccountsConfig w)) = None \<longrightarrow>
        accounts (loadAccountsConfig w) = (k, a) # rest \<longrightarrow>
        getAccount w sel = Own a) \<and>
   (\<forall>sel. if_truthy sel = None \<longrightarrow>
        if_truthy (default_account (loadAccountsConfig w)) = None \<longrightarrow>
        accounts (loadAccountsConfig w) = [] \<longrightarrow>
        outcome (getAuthenticatedClient w now rf sel) = Inl NoAccountsConfigured)"
  by (auto simp: getAccount_def getAuthenticatedClient_def obj_get_def obj_keys_def Let_def
           split: option.splits)

theorem getAccount_selection_witness:
  "getAccount (store_world \<lparr>default_account = Some ''b@x.com'',
        accounts = [(''a@x.com'', alice), (''b@x.com'', bob)]\<rparr>) (Some ''a@x.com'') = Own alice \<and>
   outcome (getAuthenticatedClient (store_world \<lparr>default_account = Some ''b@x.com'',
        accounts = [(''a@x.com'', alice), (''b@x.com'', bob)]\<rparr>) 0 refresh_fails
        (Some ''x@nowhere'')) = Inl (AccountNotFound ''x@nowhere'') \<and>
   getAccount (store_world \<lparr>default_account = Some ''b@x.com'',
        accounts = [(''a@x.com'', alice), (''b@x.com'', bob)]\<rparr>) None = Own bob \<and>
   outcome (getAuthenticatedClient (store_world \<lparr>default_account = Some ''gone@x.com'',
        accounts = [(''a@x.com'', alice)]\<rparr>) 0 refresh_fails (Some [])) =
     Inl NoAccountsConfigured \<and>
   getAccount (store_world \<lparr>default_account = None,
        accounts = [(''a@x.com'', alice), (''b@x.com'', bob)]\<rparr>) None = Own alice \<and>
   outcome (getAuthenticatedClient fresh_world 0 refresh_fails None) = Inl NoAccountsConfigured"
  using getAccount_selection [of "store_world \<lparr>default_account = Some ''b@x.com'',
        accounts = [(''a@x.com'', alice), (''b@x.com'', bob)]\<rparr>" 0 refresh_fails]
    getAccount_selection [of "store_world \<lparr>default_account = Some ''gone@x.com'',
        accounts = [(''a@x.com'', alice)]\<rparr>" 0 refresh_fails]
    getAccount_selection [of "store_world \<lparr>default_account = None,
        accounts = [(''a@x.com'', alice), (''b@x.com'', bob)]\<rparr>" 0 refresh_fails]
    getAccount_selection [of fresh_world 0 refresh_fails]
  by (simp add: loadAccountsConfig_def empty_config_def object_prototype_keys_def example_defs)

text \<open>
  As the specification words it the property fails where the default names a key that
  is not stored: the store holds one account, no email is given, and the call fails with
  \<open>NoAccountsConfigured\<close> instead of returning the first account.
\<close>

theorem resolve_dangling_default_counterexample:
  "outcome (getAuthenticatedClient
      (store_world \<lparr>default_account = Some ''gone@x.com'', accounts = [(''a@x.com'', alice)]\<rparr>)
      0 refresh_fails None) = Inl NoAccountsConfigured \<and>
   obj_keys (accounts (loadAccountsConfig
      (store_world \<lparr>default_account = Some ''gone@x.com'', accounts = [(''a@x.com'', alice)]\<rparr>)))
     = [''a@x.com'']"
  by (simp add: getAuthenticatedClient_def store_defs example_defs)

text \<open>
  Two more places where selection differs: the empty string counts as no email, and an
  email that names a property of \<open>Object.prototype\<close> is not rejected.
\<close>

lemma empty_email_counts_as_none:
  "getAccount two_accounts (Some []) = Own bob \<and>
   outcome (getAuthenticatedClient fresh_world 0 refresh_fails (Some [])) = Inl NoAccountsConfigured"
  by (simp add: getAuthenticatedClient_def store_defs example_defs)

lemma inherited_email_is_not_rejected:
  "getAccount two_accounts (Some ''constructor'') = Inherited \<and>
   outcome (getAuthenticatedClient two_accounts 0 refresh_fails (Some ''constructor'')) =
     Inr (client_for Inherited)"
  by (simp add: getAuthenticatedClient_def store_defs example_defs)

section \<open>Token refresh\<close>

text \<open>
  C3.  Whenever the session provider, for an account it found in the store, makes a
  refresh call and that call fails, it fails with \<open>TokenRefreshFailed\<close> carrying the email
  of the account, it has made that one call only, and the files are exactly as before:
  nothing was written.
\<close>

theorem refresh_failure_leaves_store:
  assumes "getAccount w sel = Own account"
    and "0 < refresh_calls (getAuthenticatedClient w now rf sel)"
    and "rf (client_for (Own account)) = Inl msg"
  shows "outcome (getAuthenticatedClient w now rf sel) = Inl (TokenRefreshFailed (email account)) \<and>
         world_after (getAuthenticatedClient w now rf sel) = w \<and>
         store_writes (getAuthenticatedClient w now rf sel) = 0 \<and>
         refresh_calls (getAuthenticatedClient w now rf sel) = 1"
  using assms by (auto simp: getAuthenticatedClient_def Let_def split: if_splits)

theorem refresh_failure_leaves_store_witness:
  "getAccount (store_world \<lparr>default_account = None, accounts = [(''a@x.com'', alice)]\<rparr>) None
     = Own alice \<and>
   0 < refresh_calls (getAuthenticatedClient
         (store_world \<lparr>default_account = None, accounts = [(''a@x.com'', alice)]\<rparr>)
         2000 refresh_fails None) \<and>
   outcome (getAuthenticatedClient
         (store_world \<lparr>default_account = None, accounts = [(''a@x.com'', alice)]\<rparr>)
         2000 refresh_fails None) = Inl (TokenRefreshFailed ''a@x.com'') \<and>
   world_after (getAuthenticatedClient
         (store_world \<lparr>default_account = None, accounts = [(''a@x.com'', alice)]\<rparr>)
         2000 refresh_fails None)
     = store_world \<lparr>default_account = None, accounts = [(''a@x.com'', alice)]\<rparr>"
proof -
  let ?w = "store_world \<lparr>default_account = None, accounts = [(''a@x.com'', alice)]\<rparr>"
  have a: "getAccount ?w None = Own alice"
    by (simp add: store_defs example_defs)
  have b: "0 < refresh_calls (getAuthenticatedClient ?w 2000 refresh_fails None)"
    by (simp add: getAuthenticatedClient_def a) (simp add: example_defs)
  have c: "refresh_fails (client_for (Own alice)) = Inl ''invalid_grant''"
    by (simp add: refresh_fails_def)
  have "email alice = ''a@x.com''" by (simp add: alice_def)
  with refresh_failure_leaves_store [OF a b c] a b show ?thesis by simp
qed




text \<open>An empty refresh token in the answer is treated like none: the stored one is kept.\<close>

lemma empty_refresh_token_keeps_stored:
  "refresh_token (updatedAccount alice (new_tokens\<lparr>tr_refresh_token := Some []\<rparr>)) = ''rt-a'' \<and>
   refresh_token (updatedAccount alice (new_tokens\<lparr>tr_refresh_token := Some ''rt-2''\<rparr>)) = ''rt-2''"
  by (simp add: updatedAccount_def example_defs)

section \<open>The client credential resolver\<close>

lemmas resolver_defs = loadClientCredentials_def stored_client_credential_def
  loadStoredCredentials_def parse_client_def unwrap_def two_fields_def file_credential_def
  embedded_credential_def spec_resolution_order_def

text \<open>
  C9, as the code has it.  When the accounts file does not exist, or reading or parsing
  it throws, loading the store gives the empty store: no accounts and no default;
  \<open>loadAccountsConfig\<close> has no error result.  It is not the only load failure that is
  tolerated.  \<open>loadStoredCredentials\<close> answers \<open>null\<close> for a legacy file that is absent or
  cannot be read or parsed, so the resolver finds no stored client credential and goes
  on.  And when it has found none and no explicit path is given, a client file (the one
  the environment variable names, or else the default one) that cannot be read or parsed
  ends in the same \<open>ConfigurationError\<close> as a missing file.  Only with an explicit path is
  such a failure thrown, wrapped and naming the path.
\<close>

theorem load_failures_tolerated:
  "(accounts_file w = Absent \<or> accounts_file w = Unparseable \<longrightarrow>
      loadAccountsConfig w = \<lparr>default_account = None, accounts = []\<rparr>) \<and>
   (credentials_file w = Absent \<or> credentials_file w = Unparseable \<longrightarrow>
      loadStoredCredentials w = None \<and> stored_client_credential w = None) \<and>
   (stored_client_credential w = None \<longrightarrow> if_truthy clientPath = None \<longrightarrow>
      (\<forall>p. if_truthy (env_client_credential_file w) = Some p \<longrightarrow>
         client_files w p = Unparseable \<longrightarrow>
         loadClientCredentials w clientPath = Inl (ConfigurationError p)) \<and>
      (if_truthy (env_client_credential_file w) = None \<longrightarrow>
         client_files w (default_client_config_path w) = Unparseable \<longrightarrow>
         loadClientCredentials w clientPath =
           Inl (ConfigurationError (default_client_config_path w)))) \<and>
   (stored_client_credential w = None \<longrightarrow>
      (\<forall>p. if_truthy clientPath = Some p \<longrightarrow> client_files w p = Unparseable \<longrightarrow>
         loadClientCredentials w clientPath = Inl (ClientLoadFailed p ReadOrParseError)))"
proof -
  have a: "accounts_file w = Absent \<or> accounts_file w = Unparseable \<longrightarrow>
      loadAccountsConfig w = \<lparr>default_account = None, accounts = []\<rparr>"
    by (auto simp: loadAccountsConfig_def empty_config_def)
  have b: "credentials_file w = Absent \<or> credentials_file w = Unparseable \<longrightarrow>
      loadStoredCredentials w = None \<and> stored_client_credential w = None"
    by (auto simp: loadStoredCredentials_def stored_client_credential_def)
  have c: "stored_client_credential w = None \<longrightarrow> if_truthy clientPath = None \<longrightarrow>
      (\<forall>p. if_truthy (env_client_credential_file w) = Some p \<longrightarrow>
         client_files w p = Unparseable \<longrightarrow>
         loadClientCredentials w clientPath = Inl (ConfigurationError p)) \<and>
      (if_truthy (env_client_credential_file w) = None \<longrightarrow>
         client_files w (default_client_config_path w) = Unparseable \<longrightarrow>
         loadClientCredentials w clientPath =
           Inl (ConfigurationError (default_client_config_path w)))"
    by (simp add: loadClientCredentials_def)
  have d: "stored_client_credential w = None \<longrightarrow>
      (\<forall>p. if_truthy clientPath = Some p \<longrightarrow> client_files w p = Unparseable \<longrightarrow>
         loadClientCredentials w clientPath = Inl (ClientLoadFailed p ReadOrParseError))"
    by (simp add: loadClientCredentials_def)
  from a b c d show ?thesis by blast
qed

theorem load_failures_tolerated_witness:
  "accounts_file (fresh_world\<lparr>accounts_file := Unparseable\<rparr>) = Unparseable \<and>
   loadAccountsConfig (fresh_world\<lparr>accounts_file := Unparseable\<rparr>) =
     \<lparr>default_account = None, accounts = []\<rparr> \<and>
   credentials_file legacy_unparseable = Unparseable \<and>
   loadStoredCredentials legacy_unparseable = None \<and>
   stored_client_credential default_file_corrupt = None \<and>
   client_files default_file_corrupt (default_client_config_path default_file_corrupt)
     = Unparseable \<and>
   loadClientCredentials default_file_corrupt None = Inl (ConfigurationError ''./client.json'') \<and>
   loadClientCredentials default_file_corrupt (Some ''./client.json'') =
     Inl (ClientLoadFailed ''./client.json'' ReadOrParseError) \<and>
   client_files env_file_corrupt ''/etc/client.json'' = Unparseable \<and>
   loadClientCredentials env_file_corrupt None = Inl (ConfigurationError ''/etc/client.json'')"
proof -
  have f: "accounts_file (fresh_world\<lparr>accounts_file := Unparseable\<rparr>) = Unparseable"
    "credentials_file legacy_unparseable = Unparseable"
    by (simp_all add: legacy_unparseable_def fresh_world_def)
  have s: "stored_client_credential default_file_corrupt = None"
    "stored_client_credential env_file_corrupt = None"
    by (simp_all add: stored_client_credential_def loadStoredCredentials_def
        default_file_corrupt_def env_file_corrupt_def fresh_world_def)
  have e: "if_truthy (env_client_credential_file default_file_corrupt) = None"
    "default_client_config_path default_file_corrupt = ''./client.json''"
    "client_files default_file_corrupt ''./client.json'' = Unparseable"
    "if_truthy (env_client_credential_file env_file_corrupt) = Some ''/etc/client.json''"
    "client_files env_file_corrupt ''/etc/client.json'' = Unparseable"
    by (simp_all add: default_file_corrupt_def env_file_corrupt_def unparseable_file_def
        fresh_world_def)
  show ?thesis
    using load_failures_tolerated [of "fresh_world\<lparr>accounts_file := Unparseable\<rparr>" None]
      load_failures_tolerated [of legacy_unparseable None]
      load_failures_tolerated [of default_file_corrupt None]
      load_failures_tolerated [of default_file_corrupt "Some ''./client.json''"]
      load_failures_tolerated [of env_file_corrupt None] f s e
    by simp
qed

text \<open>
  As the specification words it the property fails in its second half: a legacy file
  that cannot be parsed is tolerated as well.  The resolver does not fail on it; it goes
  on to the default client file and returns its credential.
\<close>

theorem tolerated_legacy_file_counterexample:
  "credentials_file legacy_unparseable = Unparseable \<and>
   loadStoredCredentials legacy_unparseable = None \<and>
   loadClientCredentials legacy_unparseable None = Inr app"
  by (simp add: loadClientCredentials_def stored_client_credential_def loadStoredCredentials_def
      parse_client_def unwrap_def two_fields_def legacy_unparseable_def fresh_world_def
      only_file_def client_file_def app_def)

text \<open>
  C5, as the code has it, for the case that step 1 finds no stored client credential.
  Exactly one file is tried.  With a non-empty explicit path it is that file: its
  credential when it yields both fields, and otherwise a failure that names the path;
  neither the environment variable nor the default file is looked at.  Without an
  explicit path it is the file named by the environment variable when that is set and
  not empty, and the default file only otherwise: its credential when it yields both
  fields, and otherwise \<open>InvalidCredentialFormat\<close> or the \<open>ConfigurationError\<close> that names
  that one path.
\<close>

theorem loadClientCredentials_single_candidate:
  assumes "stored_client_credential w = None"
  shows
   "(\<forall>p. if_truthy clientPath = Some p \<longrightarrow>
        (\<forall>c. file_credential w p = Some c \<longrightarrow> loadClientCredentials w clientPath = Inr c) \<and>
        (file_credential w p = None \<longrightarrow>
           (\<exists>e. loadClientCredentials w clientPath = Inl (ClientLoadFailed p e)))) \<and>
    (if_truthy clientPath = None \<longrightarrow>
        (\<forall>p. if_truthy (env_client_credential_file w) = Some p \<longrightarrow>
           (\<forall>c. file_credential w p = Some c \<longrightarrow> loadClientCredentials w clientPath = Inr c) \<and>
           (file_credential w p = None \<longrightarrow>
              loadClientCredentials w clientPath = Inl InvalidCredentialFormat \<or>
              loadClientCredentials w clientPath = Inl (ConfigurationError p))) \<and>
        (if_truthy (env_client_credential_file w) = None \<longrightarrow>
           (\<forall>c. file_credential w (default_client_config_path w) = Some c \<longrightarrow>
              loadClientCredentials w clientPath = Inr c) \<and>
           (file_credential w (default_client_config_path w) = None \<longrightarrow>
              loadClientCredentials w clientPath = Inl InvalidCredentialFormat \<or>
              loadClientCredentials w clientPath =
                Inl (ConfigurationError (default_client_config_path w)))))"
  using assms
  by (auto simp: loadClientCredentials_def file_credential_def parse_client_def Let_def
           split: option.splits disk_file.splits sum.splits)

theorem loadClientCredentials_single_candidate_witness:
  "stored_client_credential explicit_world = None \<and>
   file_credential explicit_world ''/home/u/client.json'' = Some app \<and>
   loadClientCredentials explicit_world (Some ''/home/u/client.json'') = Inr app \<and>
   file_credential explicit_world ''/nowhere.json'' = None \<and>
   loadClientCredentials explicit_world (Some ''/nowhere.json'') =
     Inl (ClientLoadFailed ''/nowhere.json'' (ClientFileNotFound ''/nowhere.json'')) \<and>
   stored_client_credential env_points_nowhere = None \<and>
   file_credential env_points_nowhere ''/missing.json'' = None \<and>
   loadClientCredentials env_points_nowhere None = Inl (ConfigurationError ''/missing.json'') \<and>
   stored_client_credential default_file_world = None \<and>
   if_truthy (env_client_credential_file default_file_world) = None \<and>
   file_credential default_file_world (default_client_config_path default_file_world) = Some app \<and>
   loadClientCredentials default_file_world None = Inr app"
proof -
  have s: "stored_client_credential explicit_world = None"
    "stored_client_credential env_points_nowhere = None"
    "stored_client_credential default_file_world = None"
    by (simp_all add: stored_client_credential_def loadStoredCredentials_def example_defs client_file_def only_file_def
      env_points_nowhere_def explicit_world_def default_file_world_def)
  have f: "file_credential explicit_world ''/home/u/client.json'' = Some app"
    "file_credential explicit_world ''/nowhere.json'' = None"
    "file_credential env_points_nowhere ''/missing.json'' = None"
    "file_credential default_file_world (default_client_config_path default_file_world) = Some app"
    by (simp_all add: resolver_defs example_defs client_file_def only_file_def
      env_points_nowhere_def explicit_world_def default_file_world_def)
  have t: "if_truthy (env_client_credential_file env_points_nowhere) = Some ''/missing.json''"
    "if_truthy (env_client_credential_file default_file_world) = None"
    by (simp_all add: example_defs client_file_def only_file_def
      env_points_nowhere_def explicit_world_def default_file_world_def)
  show ?thesis
    using loadClientCredentials_single_candidate [OF s(1), of "Some ''/home/u/client.json''"]
      loadClientCredentials_single_candidate [OF s(1), of "Some ''/nowhere.json''"]
      loadClientCredentials_single_candidate [OF s(2), of None]
      loadClientCredentials_single_candidate [OF s(3), of None] s f t
    by (simp add: loadClientCredentials_def example_defs client_file_def only_file_def
      env_points_nowhere_def explicit_world_def default_file_world_def)
qed

text \<open>
  The order as the specification words it fails where the environment variable names a
  file that does not exist while the default file holds a credential: the code stops
  with the configuration error, the specification's order would go on to the default file.
\<close>

theorem resolution_order_counterexample:
  "loadClientCredentials env_points_nowhere None = Inl (ConfigurationError ''/missing.json'') \<and>
   spec_resolution_order env_points_nowhere None = Some app"
  by (simp add: resolver_defs loadAccountsConfig_def empty_config_def example_defs client_file_def only_file_def
      env_points_nowhere_def explicit_world_def default_file_world_def)

text \<open>
  Likewise an explicit path that names no file ends the resolution, where the
  specification's order would go on to the default file.  And a client credential saved
  with an account of the multi-account store is not found again: step 1 reads
  \<open>credentials.json\<close>, which \<open>authenticate\<close> does not write, although it announces "Client
  credentials saved. You can now delete client.json if desired."
\<close>

lemma explicit_path_does_not_fall_through:
  "loadClientCredentials default_file_world (Some ''/nowhere.json'') =
     Inl (ClientLoadFailed ''/nowhere.json'' (ClientFileNotFound ''/nowhere.json'')) \<and>
   spec_resolution_order default_file_world (Some ''/nowhere.json'') = Some app"
  by (simp add: resolver_defs loadAccountsConfig_def empty_config_def example_defs client_file_def only_file_def
      env_points_nowhere_def explicit_world_def default_file_world_def)

lemma stored_account_credential_not_reused:
  "loadClientCredentials two_accounts None = Inl (ConfigurationError ''./client.json'') \<and>
   spec_resolution_order two_accounts None = Some app"
  by (simp add: resolver_defs loadAccountsConfig_def example_defs)

section \<open>The authorization flow\<close>

lemmas flow_defs = step_def fail_with_def settle_def server_close_def clearTimeout_def
  respond_def set_handler_def handler_at_def

lemmas run_defs = run_flow_def start_def flow_defs getUserEmail_def accountCredentials_def



lemma authenticate_run_flow:
  "loadClientCredentials w clientPath = Inr cfg \<Longrightarrow>
     authenticate w clientPath evs = run_flow cfg (start w) evs"
  by (simp add: authenticate_def)

lemma authenticate_without_client_credentials:
  "loadClientCredentials w clientPath = Inl e \<Longrightarrow>
     settled (authenticate w clientPath evs) = Some (Rejected e) \<and>
     fl_world (authenticate w clientPath evs) = w \<and>
     responses (authenticate w clientPath evs) = []"
  by (simp add: authenticate_def)












lemma credentials_file_saveAccount: "credentials_file (saveAccount w a) = credentials_file w"
  by (simp add: saveAccount_def saveAccountsConfig_def Let_def split: option.splits)

lemma credentials_file_step:
  "credentials_file (fl_world (step cfg s ev)) = credentials_file (fl_world s)"
  by (auto simp: flow_defs Let_def credentials_file_saveAccount
      split: event.splits request.splits option.splits handler.splits sum.splits)

lemma credentials_file_run:
  "credentials_file (fl_world (run_flow cfg s evs)) = credentials_file (fl_world s)"
  unfolding run_flow_def by (induction evs arbitrary: s) (auto simp: credentials_file_step)

lemma fixed_pages_step: "fixed_pages s \<Longrightarrow> fixed_pages (step cfg s ev)"
  by (auto simp: fixed_pages_def flow_defs Let_def
      split: event.splits request.splits option.splits handler.splits sum.splits)

lemma fixed_pages_run: "fixed_pages s \<Longrightarrow> fixed_pages (run_flow cfg s evs)"
  unfolding run_flow_def by (induction evs arbitrary: s) (auto simp: fixed_pages_step)







text \<open>
  C8, as the code has it.  Every response of a flow is one of four fixed pages.  Which
  error page is sent depends on the kind of failure and on nothing else: a callback
  without a code gets the "no authorization code" page, tokens without a refresh token
  get the "no refresh token" page, and everything that is thrown (by the URL parser, by
  the exchange, by the identity lookup) gets the same "error during authentication"
  page, whatever the message of the error; the timeout writes no response.
\<close>

theorem failure_page_by_kind:
  "fixed_pages (run_flow cfg (start w) evs) \<and>
   (listening s \<longrightarrow> if_truthy code = None \<longrightarrow>
      responses (step cfg s (Request (Callback code))) =
        responses s @ [(length (handlers s), page_no_code)]) \<and>
   (listening s \<longrightarrow>
      responses (step cfg s (Request BadUrl)) = responses s @ [(length (handlers s), page_error)]) \<and>
   (handler_at s i = AwaitingToken \<longrightarrow>
      responses (step cfg s (TokenDone i (Inl message))) = responses s @ [(i, page_error)]) \<and>
   (handler_at s i = AwaitingToken \<longrightarrow> if_truthy (tr_refresh_token tokens) = None \<longrightarrow>
      responses (step cfg s (TokenDone i (Inr tokens))) =
        responses s @ [(i, page_no_refresh_token)]) \<and>
   (\<forall>t rt e. handler_at s i = AwaitingEmail t rt \<longrightarrow> getUserEmail r = Inl e \<longrightarrow>
      responses (step cfg s (EmailDone i r)) = responses s @ [(i, page_error)]) \<and>
   responses (step cfg s TimerFires) = responses s \<and>
   responses (step cfg s ServerClosed) = responses s"
proof -
  have "fixed_pages (start w)"
    by (simp add: fixed_pages_def start_def)
  then have a: "fixed_pages (run_flow cfg (start w) evs)"
    by (rule fixed_pages_run)
  have b: "listening s \<longrightarrow> if_truthy code = None \<longrightarrow>
      responses (step cfg s (Request (Callback code))) =
        responses s @ [(length (handlers s), page_no_code)]"
    by (auto simp: flow_defs Let_def split: option.splits)
  have c: "listening s \<longrightarrow>
      responses (step cfg s (Request BadUrl)) = responses s @ [(length (handlers s), page_error)]"
    by (auto simp: flow_defs Let_def split: option.splits)
  have d: "handler_at s i = AwaitingToken \<longrightarrow>
      responses (step cfg s (TokenDone i (Inl message))) = responses s @ [(i, page_error)]"
    by (auto simp: flow_defs split: option.splits)
  have e: "handler_at s i = AwaitingToken \<longrightarrow> if_truthy (tr_refresh_token tokens) = None \<longrightarrow>
      responses (step cfg s (TokenDone i (Inr tokens))) =
        responses s @ [(i, page_no_refresh_token)]"
    by (auto simp: flow_defs split: option.splits)
  have f: "\<forall>t rt e. handler_at s i = AwaitingEmail t rt \<longrightarrow> getUserEmail r = Inl e \<longrightarrow>
      responses (step cfg s (EmailDone i r)) = responses s @ [(i, page_error)]"
    by (auto simp: flow_defs split: option.splits)
  have g: "responses (step cfg s TimerFires) = responses s"
    "responses (step cfg s ServerClosed) = responses s"
    by (auto simp: flow_defs split: option.splits)
  from a b c d e f g show ?thesis by blast
qed

theorem failure_page_by_kind_witness:
  "fixed_pages (run_flow app (start fresh_world) no_refresh_token_events) \<and>
   listening (start fresh_world) \<and>
   responses (step app (start fresh_world) (Request (Callback None))) = [(0, page_no_code)] \<and>
   responses (step app (start fresh_world) (Request BadUrl)) = [(0, page_error)] \<and>
   handler_at (step app (start fresh_world) (Request (Callback (Some ''4/code'')))) 0
     = AwaitingToken \<and>
   responses (step app (step app (start fresh_world) (Request (Callback (Some ''4/code''))))
       (TokenDone 0 (Inl ''invalid_grant''))) = [(0, page_error)] \<and>
   responses (step app (step app (start fresh_world) (Request (Callback (Some ''4/code''))))
       (TokenDone 0 (Inl ''getaddrinfo ENOTFOUND''))) = [(0, page_error)] \<and>
   responses (step app (step app (start fresh_world) (Request (Callback (Some ''4/code''))))
       (TokenDone 0 (Inr new_tokens))) = [(0, page_no_refresh_token)] \<and>
   handler_at (step app (step app (start fresh_world) (Request (Callback (Some ''4/code''))))
       (TokenDone 0 (Inr tokens_with_refresh))) 0 = AwaitingEmail tokens_with_refresh ''rt-1'' \<and>
   responses (step app (step app (step app (start fresh_world)
       (Request (Callback (Some ''4/code'')))) (TokenDone 0 (Inr tokens_with_refresh)))
       (EmailDone 0 (FetchFailed ''socket hang up''))) = [(0, page_error)] \<and>
   responses (step app (step app (step app (start fresh_world)
       (Request (Callback (Some ''4/code'')))) (TokenDone 0 (Inr tokens_with_refresh)))
       (EmailDone 0 (UserInfo None))) = [(0, page_error)]"
proof -
  let ?s = "step app (start fresh_world) (Request (Callback (Some ''4/code'')))"
  let ?s2 = "step app ?s (TokenDone 0 (Inr tokens_with_refresh))"
  have l: "listening (start fresh_world)" "responses (start fresh_world) = []"
    "handlers (start fresh_world) = []" "if_truthy None = None"
    by (simp_all add: start_def)
  have h: "handler_at ?s 0 = AwaitingToken" "responses ?s = []"
    "if_truthy (tr_refresh_token new_tokens) = None"
    by (simp_all add: flow_defs start_def new_tokens_def)
  have h2: "handler_at ?s2 0 = AwaitingEmail tokens_with_refresh ''rt-1''" "responses ?s2 = []"
    by (simp_all add: flow_defs start_def tokens_with_refresh_def)
  have g: "getUserEmail (FetchFailed ''socket hang up'') = Inl (IdentityLookupError ''socket hang up'')"
    "getUserEmail (UserInfo None) =
       Inl (IdentityLookupError ''Email not found in user info response'')"
    by (simp_all add: getUserEmail_def)
  show ?thesis
    using failure_page_by_kind [of app fresh_world no_refresh_token_events "start fresh_world"
        None 0 "''x''" new_tokens "UserInfo None"]
      failure_page_by_kind [of app fresh_world no_refresh_token_events ?s
        None 0 "''invalid_grant''" new_tokens "UserInfo None"]
      failure_page_by_kind [of app fresh_world no_refresh_token_events ?s
        None 0 "''getaddrinfo ENOTFOUND''" new_tokens "UserInfo None"]
      failure_page_by_kind [of app fresh_world no_refresh_token_events ?s2
        None 0 "''x''" new_tokens "FetchFailed ''socket hang up''"]
      failure_page_by_kind [of app fresh_world no_refresh_token_events ?s2
        None 0 "''x''" new_tokens "UserInfo None"]
    by (simp add: l h h2 g)
qed

text \<open>
  As the specification words it the property fails on two failing flows: the one without a code and the one
  without a refresh token end with different response bodies, each naming its reason.
\<close>

theorem failure_pages_differ_counterexample:
  "settled (run_flow app (start fresh_world) no_code_events) =
     Some (Rejected MissingAuthorizationCode) \<and>
   settled (run_flow app (start fresh_world) no_refresh_token_events) =
     Some (Rejected MissingRefreshToken) \<and>
   map snd (responses (run_flow app (start fresh_world) no_code_events)) = [page_no_code] \<and>
   map snd (responses (run_flow app (start fresh_world) no_refresh_token_events)) =
     [page_no_refresh_token] \<and>
   hr_body page_no_code = ''<h1>Error: No authorization code received</h1>'' \<and>
   hr_body page_no_refresh_token = ''<h1>Error: No refresh token received</h1>'' \<and>
   hr_body page_no_code \<noteq> hr_body page_no_refresh_token"
  by (simp add: run_defs example_defs no_code_events_def no_refresh_token_events_def page_no_code_def page_no_refresh_token_def)

section \<open>isAuthenticated\<close>

text \<open>
  C10.  \<open>isAuthenticated\<close> is true exactly when the legacy file \<open>credentials.json\<close> exists
  and parses; the accounts file has no part in it, and no step of an authorization flow
  touches the legacy file.  So after a successful login on a first run
  \<open>isAuthenticated\<close> is still false, although the store holds the account and the
  session provider returns a client for it; and with a legacy file left over and no
  account stored \<open>isAuthenticated\<close> is true.
\<close>

theorem isAuthenticated_reads_legacy_file_only:
  "(isAuthenticated w \<longleftrightarrow> (\<exists>c. credentials_file w = Parsed c)) \<and>
   isAuthenticated (w\<lparr>accounts_file := f\<rparr>) = isAuthenticated w \<and>
   credentials_file (fl_world (run_flow cfg (start w) evs)) = credentials_file w \<and>
   isAuthenticated (fl_world (run_flow cfg (start w) evs)) = isAuthenticated w \<and>
   settled (run_flow app (start fresh_world) login_events) = Some Resolved \<and>
   \<not> isAuthenticated (fl_world (run_flow app (start fresh_world) login_events)) \<and>
   obj_keys (accounts (loadAccountsConfig (fl_world (run_flow app (start fresh_world) login_events))))
     = [''a@x.com''] \<and>
   outcome (getAuthenticatedClient (fl_world (run_flow app (start fresh_world) login_events))
       2000 refresh_fails None) =
     Inr (client_for (Own (accountCredentials app ''a@x.com'' tokens_with_refresh ''rt-1''))) \<and>
   isAuthenticated legacy_only \<and>
   accounts (loadAccountsConfig legacy_only) = []"
proof -
  have a: "isAuthenticated w \<longleftrightarrow> (\<exists>c. credentials_file w = Parsed c)" for w
    by (auto simp: isAuthenticated_def loadStoredCredentials_def split: disk_file.splits)
  have b: "isAuthenticated (w\<lparr>accounts_file := f\<rparr>) = isAuthenticated w"
    by (simp add: isAuthenticated_def loadStoredCredentials_def)
  have c: "credentials_file (fl_world (run_flow cfg (start w) evs)) = credentials_file w"
    by (simp add: credentials_file_run start_def)
  then have d: "isAuthenticated (fl_world (run_flow cfg (start w) evs)) = isAuthenticated w"
    by (simp add: a)
  have login: "settled (run_flow app (start fresh_world) login_events) = Some Resolved"
    "fl_world (run_flow app (start fresh_world) login_events) =
       store_world \<lparr>default_account = Some ''a@x.com'',
         accounts = [(''a@x.com'', accountCredentials app ''a@x.com'' tokens_with_refresh ''rt-1'')]\<rparr>"
    by (simp_all add: run_defs store_defs example_defs login_events_def legacy_only_def)
  have e: "\<not> isAuthenticated (fl_world (run_flow app (start fresh_world) login_events))"
    unfolding login(2)
    by (simp add: isAuthenticated_def loadStoredCredentials_def store_world_def fresh_world_def)
  have f: "obj_keys (accounts (loadAccountsConfig
              (fl_world (run_flow app (start fresh_world) login_events)))) = [''a@x.com'']"
    unfolding login(2)
    by (simp add: loadAccountsConfig_def obj_keys_def store_world_def fresh_world_def)
  have g: "outcome (getAuthenticatedClient (fl_world (run_flow app (start fresh_world) login_events))
       2000 refresh_fails None) =
     Inr (client_for (Own (accountCredentials app ''a@x.com'' tokens_with_refresh ''rt-1'')))"
    unfolding login(2)
    by (simp add: getAuthenticatedClient_def store_defs store_world_def fresh_world_def
        accountCredentials_def tokens_with_refresh_def)
  have h: "isAuthenticated legacy_only" "accounts (loadAccountsConfig legacy_only) = []"
    by (simp_all add: isAuthenticated_def loadStoredCredentials_def loadAccountsConfig_def
        empty_config_def example_defs login_events_def legacy_only_def)
  from a b c d login(1) e f g h show ?thesis by blast
qed

end
